theory Spec2Isabelle
  imports Main
begin

section \<open>The coc.nvim adapter of lsp\_lines: data model\<close>

text \<open>
  The embedded program is \<^verbatim>\<open>src/coc-extension/index.js\<close>. Line and character numbers are
  JavaScript numbers that hold integers (zero-based in a range, one-based in a cursor), so
  they are modelled as \<^typ>\<open>int\<close>: \<^verbatim>\<open>lnum - 1\<close> is integer subtraction, also at \<^verbatim>\<open>lnum = 0\<close>.
\<close>

record position =
  line :: int
  character :: int

text \<open>The field \<^verbatim>\<open>end\<close> of a range is written \<open>end'\<close>.\<close>

record lsp_range =
  start :: position
  end' :: position

text \<open>
  A coc diagnostic object. The field \<^verbatim>\<open>range\<close> is written \<open>range'\<close>. The properties
  \<^verbatim>\<open>lnum\<close> and \<^verbatim>\<open>col\<close> are absent (\<open>None\<close>, JavaScript's \<^verbatim>\<open>undefined\<close>) until they are
  assigned. Every property the adapter never touches lives in the extension part
  \<open>more\<close> of the record scheme.
\<close>

record diagnostic =
  range' :: lsp_range
  severity :: int
  message :: string
  source :: string
  lnum :: "int option"
  col :: "int option"

text \<open>
  Diagnostic objects are shared by reference between the diagnostic manager and the
  adapter, and the adapter assigns to them. The store maps an object reference to the
  object it denotes.
\<close>

type_synonym addr = nat
type_synonym 'a heap = "addr \<Rightarrow> 'a diagnostic_scheme"

section \<open>The two helper functions\<close>

text \<open>
  \<^verbatim>\<open>function diagnosticIsOnLine(cocDiagnostic, lnum) {
      let { start, end } = cocDiagnostic.range
      return start.line <= lnum - 1 && end.line >= lnum -1
  }\<close>
  The function only reads the object, so it takes the object's value.
\<close>

definition diagnosticIsOnLine :: "'a diagnostic_scheme \<Rightarrow> int \<Rightarrow> bool" where
  "diagnosticIsOnLine cocDiagnostic lnum_arg =
     (let start_pos = start (range' cocDiagnostic);
          end_pos = end' (range' cocDiagnostic)
      in line start_pos \<le> lnum_arg - 1 \<and> line end_pos \<ge> lnum_arg - 1)"

text \<open>
  \<^verbatim>\<open>function populateLnumAndCol(cocDiagnostic) {
    const { start } = cocDiagnostic.range
    cocDiagnostic.lnum = start.line
    cocDiagnostic.col = start.character
    return cocDiagnostic
  }\<close>
  The two assignments write to the object the argument refers to; the reference itself is
  returned. The model takes the reference and the store and returns the reference and the
  updated store.
\<close>

definition populateLnumAndCol :: "addr \<Rightarrow> 'a heap \<Rightarrow> addr \<times> 'a heap" where
  "populateLnumAndCol cocDiagnostic h =
     (let start_pos = start (range' (h cocDiagnostic));
          h1 = h(cocDiagnostic := (h cocDiagnostic)\<lparr>lnum := Some (line start_pos)\<rparr>);
          h2 = h1(cocDiagnostic := (h1 cocDiagnostic)\<lparr>col := Some (character start_pos)\<rparr>)
      in (cocDiagnostic, h2))"

text \<open>The value an object has once both properties are populated.\<close>

definition normalised :: "'a diagnostic_scheme \<Rightarrow> 'a diagnostic_scheme" where
  "normalised d = d\<lparr>lnum := Some (line (start (range' d))),
                     col := Some (character (start (range' d)))\<rparr>"

section \<open>Values sent to Neovim\<close>

text \<open>
  The arguments of a request are JavaScript values. A diagnostic object is written to the
  request with the properties it has when the request is made.
\<close>

datatype 'a js_value =
    JUndefined
  | JNumber int
  | JString string
  | JEmptyObject
  | JDiagnostic "'a diagnostic_scheme"
  | JArray "'a js_value list"

text \<open>
  The Lua chunk of the cleanup action, with the namespace number spliced in for \<^verbatim>\<open>${NS}\<close>:
  \<^verbatim>\<open>for _, bufnr in ipairs(vim.api.nvim_list_bufs()) do
    vim.api.nvim_buf_clear_namespace(bufnr, ${NS}, 0, -1)
  end\<close>
  The constructor carries the three arguments of \<^verbatim>\<open>nvim_buf_clear_namespace\<close> after the buffer.
\<close>

datatype lua_chunk = ForListBufs_ClearNamespace int int int

text \<open>\<^verbatim>\<open>nvim.call(fname, args)\<close> and \<^verbatim>\<open>nvim.lua(code)\<close>.\<close>

datatype 'a nvim_request =
    NvimCall string "'a js_value list"
  | NvimLua lua_chunk

text \<open>The lines appended to the output channel, with the value that is stringified.\<close>

datatype 'a log_line =
    OnDidRefreshLine int "'a diagnostic_scheme list"
  | CursorMovedLine "'a diagnostic_scheme list"

section \<open>State of the adapter and replies of the host\<close>

text \<open>
  What a handler can change: the diagnostic objects, the requests sent to Neovim (oldest
  first) and the output channel.
\<close>

record 'a state =
  heap :: "'a heap"
  requests :: "'a nvim_request list"
  channel :: "'a log_line list"

text \<open>
  What the host answers while a handler runs: \<open>window_cursor\<close> is the result of
  \<^verbatim>\<open>(await nvim.window).cursor\<close>, \<open>getBufferAndPosition\<close> the pair returned by
  \<^verbatim>\<open>diagnosticManager.getBufferAndPosition()\<close> (a diagnostic buffer is identified by its buffer
  number) and \<open>getDiagnostics\<close> the object returned by \<^verbatim>\<open>diagnosticManager.getDiagnostics\<close>
  for a buffer, as the list of its entries in the order \<^verbatim>\<open>for ... in\<close> enumerates them. The
  three lookups are taken to resolve, as the destructuring in the source presupposes.
\<close>

record host =
  window_cursor :: "int \<times> int"
  getBufferAndPosition :: "int \<times> (int \<times> int)"
  getDiagnostics :: "int \<Rightarrow> (string \<times> addr list) list"

text \<open>The event \<^verbatim>\<open>e\<close> of \<^verbatim>\<open>onDidRefresh\<close>: the source reads \<^verbatim>\<open>e.bufnr\<close> and \<^verbatim>\<open>e.diagnostics\<close>.\<close>

record refresh_event =
  bufnr :: int
  diagnostics :: "addr list"

section \<open>The handlers\<close>

text \<open>The Lua expression given to \<^verbatim>\<open>luaeval\<close>; \<open>CHR 0x27\<close> is the single quote.\<close>

definition render_show :: string where
  "render_show = ''require'' @ [CHR 0x27] @ ''lsp_lines.render'' @ [CHR 0x27] @
     ''.show(_A[1], _A[2], _A[3], _A[4], _A[5])''"

text \<open>
  \<^verbatim>\<open>xs.map(d => populateLnumAndCol(d))\<close>: the callback runs on each element in turn, each call
  on the store the previous one left.
\<close>

fun map_populateLnumAndCol :: "addr list \<Rightarrow> 'a heap \<Rightarrow> addr list \<times> 'a heap" where
  "map_populateLnumAndCol [] h = ([], h)"
| "map_populateLnumAndCol (d # ds) h =
     (let (d', h') = populateLnumAndCol d h;
          (ds', h'') = map_populateLnumAndCol ds h'
      in (d' # ds', h''))"

text \<open>
  \<^verbatim>\<open>var flattenedDiagnostics = []
  for (const source in diagnosticsBySource) {
    flattenedDiagnostics.push(...diagnosticsBySource[source])
  }\<close>
  The keys of an object are distinct, so \<^verbatim>\<open>diagnosticsBySource[source]\<close> is the value of the
  entry being enumerated.
\<close>

fun flatten_loop :: "(string \<times> addr list) list \<Rightarrow> addr list \<Rightarrow> addr list" where
  "flatten_loop [] flattenedDiagnostics = flattenedDiagnostics"
| "flatten_loop ((source_key, ds) # rest) flattenedDiagnostics =
     flatten_loop rest (flattenedDiagnostics @ ds)"

text \<open>The callback of \<^verbatim>\<open>diagnosticManager.onDidRefresh\<close> in \<^verbatim>\<open>activateCurrentLineOnlyMode\<close>.\<close>

definition onDidRefresh_currentLineOnly ::
  "int \<Rightarrow> host \<Rightarrow> refresh_event \<Rightarrow> 'a state \<Rightarrow> 'a state" where
  "onDidRefresh_currentLineOnly NS hst e st =
     (let st1 = st\<lparr>channel := channel st @
                   [OnDidRefreshLine (bufnr e) (map (heap st) (diagnostics e))]\<rparr>;
          (cursor_lnum, cursor_col) = window_cursor hst;
          (populated, h') = map_populateLnumAndCol (diagnostics e) (heap st1);
          onLine = filter (\<lambda>d. diagnosticIsOnLine (h' d) cursor_lnum) populated
      in st1\<lparr>heap := h',
             requests := requests st1 @
               [NvimCall ''luaeval''
                  [JString render_show,
                   JArray [JNumber NS,
                           JNumber (bufnr e),
                           JArray (map (\<lambda>d. JDiagnostic (h' d)) onLine),
                           JEmptyObject,
                           JString ''coc'']]]\<rparr>)"

text \<open>The callback of \<^verbatim>\<open>events.on("CursorMoved", ...)\<close>.\<close>

definition onCursorMoved ::
  "int \<Rightarrow> host \<Rightarrow> int \<Rightarrow> int \<times> int \<Rightarrow> 'a state \<Rightarrow> 'a state" where
  "onCursorMoved NS hst bufnr_arg cursor st =
     (let (cursor_lnum, cursor_col) = cursor;
          (cocBuffer, cocPosition) = getBufferAndPosition hst;
          diagnosticsBySource = getDiagnostics hst cocBuffer;
          flattenedDiagnostics = flatten_loop diagnosticsBySource [];
          st1 = st\<lparr>channel := channel st @
                   [CursorMovedLine (map (heap st) flattenedDiagnostics)]\<rparr>;
          (populated, h') = map_populateLnumAndCol flattenedDiagnostics (heap st1);
          onLine = filter (\<lambda>d. diagnosticIsOnLine (h' d) cursor_lnum) populated
      in st1\<lparr>heap := h',
             requests := requests st1 @
               [NvimCall ''luaeval''
                  [JString render_show,
                   JArray [JNumber NS,
                           JNumber bufnr_arg,
                           JArray (map (\<lambda>d. JDiagnostic (h' d)) onLine),
                           JEmptyObject,
                           JString ''coc'']]]\<rparr>)"

text \<open>The callback of \<^verbatim>\<open>diagnosticManager.onDidRefresh\<close> in \<^verbatim>\<open>activateAllLinesMode\<close>.\<close>

definition onDidRefresh_allLines :: "int \<Rightarrow> refresh_event \<Rightarrow> 'a state \<Rightarrow> 'a state" where
  "onDidRefresh_allLines NS e st =
     (let st1 = st\<lparr>channel := channel st @
                   [OnDidRefreshLine (bufnr e) (map (heap st) (diagnostics e))]\<rparr>;
          (populated, h') = map_populateLnumAndCol (diagnostics e) (heap st1)
      in st1\<lparr>heap := h',
             requests := requests st1 @
               [NvimCall ''luaeval''
                  [JString render_show,
                   JArray [JNumber NS,
                           JNumber (bufnr e),
                           JArray (map (\<lambda>d. JDiagnostic (h' d)) populated),
                           JEmptyObject,
                           JString ''coc'']]]\<rparr>)"

section \<open>Activation, event delivery and disposal\<close>

text \<open>
  The entries pushed to \<^verbatim>\<open>context.subscriptions\<close>: the two event subscriptions of the
  current-line-only mode, the event subscription of the all-lines mode and the disposable
  made with \<^verbatim>\<open>Disposable.create\<close>. Each carries the namespace \<^verbatim>\<open>NS\<close> its closure captured.
\<close>

datatype disposable =
    DiagnosticRefreshEvent_CurrentLineOnly int
  | CursorMovedEvent int
  | DiagnosticRefreshEvent_AllLines int
  | ClearNamespaceDisposable int

text \<open>\<open>NS\<close> is the number \<^verbatim>\<open>nvim.createNamespace('coc-lsp-lines')\<close> resolved to.\<close>

definition activateCurrentLineOnlyMode :: "int \<Rightarrow> disposable list \<Rightarrow> disposable list" where
  "activateCurrentLineOnlyMode NS subscriptions =
     subscriptions @ [DiagnosticRefreshEvent_CurrentLineOnly NS,
                      CursorMovedEvent NS,
                      ClearNamespaceDisposable NS]"

definition activateAllLinesMode :: "int \<Rightarrow> disposable list \<Rightarrow> disposable list" where
  "activateAllLinesMode NS subscriptions =
     subscriptions @ [DiagnosticRefreshEvent_AllLines NS,
                      ClearNamespaceDisposable NS]"

text \<open>\<open>currentLineOnly\<close> is the truth value of the configuration setting.\<close>

definition activate :: "bool \<Rightarrow> int \<Rightarrow> disposable list \<Rightarrow> disposable list" where
  "activate currentLineOnly NS subscriptions =
     (if currentLineOnly then activateCurrentLineOnlyMode NS subscriptions
      else activateAllLinesMode NS subscriptions)"

text \<open>The two events of the host, with the arguments the callbacks receive.\<close>

datatype event =
    DidRefresh refresh_event
  | CursorMoved int "int \<times> int"

text \<open>An event runs the callback subscribed to it; no other entry reacts.\<close>

fun fire :: "host \<Rightarrow> event \<Rightarrow> disposable \<Rightarrow> 'a state \<Rightarrow> 'a state" where
  "fire hst (DidRefresh e) (DiagnosticRefreshEvent_CurrentLineOnly NS) st =
     onDidRefresh_currentLineOnly NS hst e st"
| "fire hst (CursorMoved bufnr_arg cursor) (CursorMovedEvent NS) st =
     onCursorMoved NS hst bufnr_arg cursor st"
| "fire hst (DidRefresh e) (DiagnosticRefreshEvent_AllLines NS) st =
     onDidRefresh_allLines NS e st"
| "fire hst ev d st = st"

definition deliver :: "disposable list \<Rightarrow> host \<times> event \<Rightarrow> 'a state \<Rightarrow> 'a state" where
  "deliver subscriptions hev st = fold (fire (fst hev) (snd hev)) subscriptions st"

text \<open>
  Events are handled one after the other, each handler running to its end; every event
  comes with the replies the host gives while it is handled.
\<close>

definition run :: "disposable list \<Rightarrow> (host \<times> event) list \<Rightarrow> 'a state \<Rightarrow> 'a state" where
  "run subscriptions evs st = fold (deliver subscriptions) evs st"

text \<open>
  Disposing of an event subscription sends nothing to Neovim; disposing of the last
  entry runs \<^verbatim>\<open>nvim.lua\<close> on the cleanup chunk.
\<close>

fun dispose :: "disposable \<Rightarrow> 'a state \<Rightarrow> 'a state" where
  "dispose (ClearNamespaceDisposable NS) st =
     st\<lparr>requests := requests st @ [NvimLua (ForListBufs_ClearNamespace NS 0 (- 1))]\<rparr>"
| "dispose d st = st"

definition deactivate :: "disposable list \<Rightarrow> 'a state \<Rightarrow> 'a state" where
  "deactivate subscriptions st = fold dispose subscriptions st"

section \<open>Neovim's side of the requests\<close>

text \<open>
  An annotation (extmark, virtual text) belongs to a namespace and sits on a zero-based
  line of a buffer.
\<close>

record extmark =
  mark_ns :: int
  mark_line :: nat

record nvim_state =
  bufs :: "int list"
  extmarks :: "int \<Rightarrow> extmark list"

text \<open>
  Modelled from the spec: the buffer list of the editor, which is not part of the
  adapter (``across every open buffer'').
\<close>

definition nvim_list_bufs :: "nvim_state \<Rightarrow> int list" where
  "nvim_list_bufs nv = bufs nv"

text \<open>
  Modelled from the spec: the annotation-clear primitive of the editor, which is not part
  of the adapter (``given a namespace id, clears annotations in that namespace''). It
  removes from the buffer the annotations of namespace \<open>ns_id\<close> (of every namespace when
  \<open>ns_id\<close> is \<open>-1\<close>) on the lines from \<open>line_start\<close> up to, not including, \<open>line_end\<close>, or
  up to the end of the buffer when \<open>line_end\<close> is \<open>-1\<close>.
\<close>

definition nvim_buf_clear_namespace :: "int \<Rightarrow> int \<Rightarrow> int \<Rightarrow> int \<Rightarrow> nvim_state \<Rightarrow> nvim_state" where
  "nvim_buf_clear_namespace buffer ns_id line_start line_end nv =
     nv\<lparr>extmarks := (extmarks nv)(buffer :=
          filter (\<lambda>m. \<not> ((ns_id = - 1 \<or> mark_ns m = ns_id) \<and>
                          line_start \<le> int (mark_line m) \<and>
                          (line_end = - 1 \<or> int (mark_line m) < line_end)))
                 (extmarks nv buffer))\<rparr>"

definition exec_lua :: "lua_chunk \<Rightarrow> nvim_state \<Rightarrow> nvim_state" where
  "exec_lua c nv =
     (case c of ForListBufs_ClearNamespace NS line_start line_end \<Rightarrow>
        fold (\<lambda>b. nvim_buf_clear_namespace b NS line_start line_end) (nvim_list_bufs nv) nv)"

text \<open>Lua's \<^verbatim>\<open>_A[i]\<close>: one-based, \<^verbatim>\<open>nil\<close> outside the array.\<close>

definition lua_index :: "'a js_value list \<Rightarrow> nat \<Rightarrow> 'a js_value" where
  "lua_index A i = (if 1 \<le> i \<and> i \<le> length A then A ! (i - 1) else JUndefined)"

text \<open>
  The renderer \<^verbatim>\<open>require'lsp_lines.render'.show\<close> is a parameter: any function of its five
  arguments on the editor. A request other than the two the adapter sends leaves the
  annotations as they are.
\<close>

type_synonym 'a renderer =
  "'a js_value \<Rightarrow> 'a js_value \<Rightarrow> 'a js_value \<Rightarrow> 'a js_value \<Rightarrow> 'a js_value \<Rightarrow>
   nvim_state \<Rightarrow> nvim_state"

fun exec_request :: "'a renderer \<Rightarrow> 'a nvim_request \<Rightarrow> nvim_state \<Rightarrow> nvim_state" where
  "exec_request render (NvimLua c) nv = exec_lua c nv"
| "exec_request render (NvimCall fname [JString expr, JArray A]) nv =
     (if fname = ''luaeval'' \<and> expr = render_show
      then render (lua_index A 1) (lua_index A 2) (lua_index A 3) (lua_index A 4)
             (lua_index A 5) nv
      else nv)"
| "exec_request render (NvimCall fname args) nv = nv"

definition exec_requests :: "'a renderer \<Rightarrow> 'a nvim_request list \<Rightarrow> nvim_state \<Rightarrow> nvim_state" where
  "exec_requests render rs nv = fold (exec_request render) rs nv"

section \<open>Example data\<close>

text \<open>
  The diagnostic of the concrete scenario: \<^verbatim>\<open>{range:{start:{line:2,character:0},
  end:{line:2,character:5}}, message:"unused var"}\<close>, as received (neither \<^verbatim>\<open>lnum\<close> nor
  \<^verbatim>\<open>col\<close> yet).
\<close>

definition unused_var :: diagnostic where
  "unused_var =
     \<lparr>range' = \<lparr>start = \<lparr>line = 2, character = 0\<rparr>, end' = \<lparr>line = 2, character = 5\<rparr>\<rparr>,
      severity = 2, message = ''unused var'', source = ''tsserver'',
      lnum = None, col = None\<rparr>"

text \<open>A single-line diagnostic at zero-based line 4.\<close>

definition on_line4 :: diagnostic where
  "on_line4 =
     \<lparr>range' = \<lparr>start = \<lparr>line = 4, character = 7\<rparr>, end' = \<lparr>line = 4, character = 9\<rparr>\<rparr>,
      severity = 1, message = ''missing semicolon'', source = ''eslint'',
      lnum = None, col = None\<rparr>"

text \<open>A store with \<open>unused_var\<close> at reference 0 and \<open>on_line4\<close> at every other reference.\<close>

definition example_heap :: "unit heap" where
  "example_heap a = (if a = 0 then unused_var else on_line4)"

text \<open>The diagnostic manager holds both diagnostics for buffer 1 and nothing elsewhere.\<close>

definition example_getDiagnostics :: "int \<Rightarrow> (string \<times> addr list) list" where
  "example_getDiagnostics b = (if b = 1 then [(''tsserver'', [0]), (''eslint'', [1])] else [])"

text \<open>The focused window shows buffer 1, with the cursor on line 3.\<close>

definition example_host :: host where
  "example_host =
     \<lparr>window_cursor = (3, 0),
      getBufferAndPosition = (1, (2, 0)),
      getDiagnostics = example_getDiagnostics\<rparr>"

definition example_state :: "unit state" where
  "example_state = \<lparr>heap = example_heap, requests = [], channel = []\<rparr>"

text \<open>A refresh of buffer 2, which is not the focused one, carrying both diagnostics.\<close>

definition example_refresh :: refresh_event where
  "example_refresh = \<lparr>bufnr = 2, diagnostics = [0, 1]\<rparr>"

text \<open>An editor with two buffers, each annotated in the namespaces 7 and 8.\<close>

definition example_extmarks :: "int \<Rightarrow> extmark list" where
  "example_extmarks b = [\<lparr>mark_ns = 7, mark_line = 3\<rparr>, \<lparr>mark_ns = 8, mark_line = 0\<rparr>]"

definition example_nvim :: nvim_state where
  "example_nvim = \<lparr>bufs = [1, 2], extmarks = example_extmarks\<rparr>"

text \<open>A renderer that puts one annotation of the given namespace on the given buffer.\<close>

fun example_render :: "unit renderer" where
  "example_render (JNumber ns) (JNumber b) ds opts tag nv =
     nv\<lparr>extmarks := (extmarks nv)(b := \<lparr>mark_ns = ns, mark_line = 0\<rparr> # extmarks nv b)\<rparr>"
| "example_render ns b ds opts tag nv = nv"

section \<open>Properties of the helper functions\<close>

lemma populateLnumAndCol_eq:
  "populateLnumAndCol a h = (a, h(a := normalised (h a)))"
  by (simp add: populateLnumAndCol_def normalised_def Let_def)

lemma normalised_idem: "normalised (normalised d) = normalised d"
  by (simp add: normalised_def)

lemma range_normalised: "range' (normalised d) = range' d"
  by (simp add: normalised_def)

lemma diagnosticIsOnLine_normalised:
  "diagnosticIsOnLine (normalised d) l = diagnosticIsOnLine d l"
  by (simp add: diagnosticIsOnLine_def range_normalised)

text \<open>
  Mapping \<^verbatim>\<open>populateLnumAndCol\<close> over an array returns the same references and leaves every
  object of the array populated, also when a reference occurs twice.
\<close>

lemma map_populateLnumAndCol_eq:
  "map_populateLnumAndCol ds h = (ds, \<lambda>a. if a \<in> set ds then normalised (h a) else h a)"
proof (induction ds arbitrary: h)
  case Nil
  show ?case by simp
next
  case (Cons d ds)
  have "(\<lambda>a. if a \<in> set ds then normalised ((h(d := normalised (h d))) a)
               else (h(d := normalised (h d))) a)
        = (\<lambda>a. if a \<in> set (d # ds) then normalised (h a) else h a)"
    by (rule ext) (simp add: normalised_idem)
  then show ?case
    by (simp add: populateLnumAndCol_eq Cons.IH)
qed

lemma flatten_loop_eq: "flatten_loop xs acc = acc @ concat (map snd xs)"
  by (induction xs acc rule: flatten_loop.induct) simp_all

text \<open>What each handler does to the store, the channel and the requests.\<close>

lemma shown_eq:
  assumes "h' = (\<lambda>a. if a \<in> set ds then normalised (h a) else h a)"
  shows "map (\<lambda>d. JDiagnostic (h' d)) (filter (\<lambda>d. diagnosticIsOnLine (h' d) L) ds) =
         map JDiagnostic (filter (\<lambda>d. diagnosticIsOnLine d L) (map (\<lambda>a. normalised (h a)) ds))"
proof -
  have 1: "map h' ds = map (\<lambda>a. normalised (h a)) ds"
    using assms by simp
  have 2: "map (\<lambda>d. JDiagnostic (h' d)) (filter (\<lambda>d. diagnosticIsOnLine (h' d) L) ds) =
           map JDiagnostic (filter (\<lambda>d. diagnosticIsOnLine d L) (map h' ds))"
    by (simp add: filter_map o_def)
  show ?thesis by (simp only: 1 2)
qed

lemma all_eq:
  assumes "h' = (\<lambda>a. if a \<in> set ds then normalised (h a) else h a)"
  shows "map (\<lambda>d. JDiagnostic (h' d)) ds = map JDiagnostic (map (\<lambda>a. normalised (h a)) ds)"
  using assms by simp

lemma onCursorMoved_eq:
  "onCursorMoved NS hst b (L, c) st =
     st\<lparr>channel := channel st @
           [CursorMovedLine (map (heap st)
              (concat (map snd (getDiagnostics hst (fst (getBufferAndPosition hst))))))],
        heap := (\<lambda>a. if a \<in> set (concat (map snd (getDiagnostics hst (fst (getBufferAndPosition hst)))))
                      then normalised (heap st a) else heap st a),
        requests := requests st @
          [NvimCall ''luaeval''
             [JString render_show,
              JArray [JNumber NS, JNumber b,
                      JArray (map JDiagnostic
                        (filter (\<lambda>d. diagnosticIsOnLine d L)
                           (map (\<lambda>a. normalised (heap st a))
                              (concat (map snd (getDiagnostics hst (fst (getBufferAndPosition hst)))))))),
                      JEmptyObject, JString ''coc'']]]\<rparr>"
  by (simp add: onCursorMoved_def Let_def split_beta map_populateLnumAndCol_eq
        flatten_loop_eq shown_eq [OF refl] cong: if_cong)

lemma onDidRefresh_currentLineOnly_eq:
  "onDidRefresh_currentLineOnly NS hst e st =
     st\<lparr>channel := channel st @ [OnDidRefreshLine (bufnr e) (map (heap st) (diagnostics e))],
        heap := (\<lambda>a. if a \<in> set (diagnostics e) then normalised (heap st a) else heap st a),
        requests := requests st @
          [NvimCall ''luaeval''
             [JString render_show,
              JArray [JNumber NS, JNumber (bufnr e),
                      JArray (map JDiagnostic
                        (filter (\<lambda>d. diagnosticIsOnLine d (fst (window_cursor hst)))
                           (map (\<lambda>a. normalised (heap st a)) (diagnostics e)))),
                      JEmptyObject, JString ''coc'']]]\<rparr>"
  by (simp add: onDidRefresh_currentLineOnly_def Let_def split_beta
        map_populateLnumAndCol_eq shown_eq [OF refl] cong: if_cong)

lemma onDidRefresh_allLines_eq:
  "onDidRefresh_allLines NS e st =
     st\<lparr>channel := channel st @ [OnDidRefreshLine (bufnr e) (map (heap st) (diagnostics e))],
        heap := (\<lambda>a. if a \<in> set (diagnostics e) then normalised (heap st a) else heap st a),
        requests := requests st @
          [NvimCall ''luaeval''
             [JString render_show,
              JArray [JNumber NS, JNumber (bufnr e),
                      JArray (map JDiagnostic (map (\<lambda>a. normalised (heap st a)) (diagnostics e))),
                      JEmptyObject, JString ''coc'']]]\<rparr>"
  by (simp add: onDidRefresh_allLines_def Let_def split_beta
        map_populateLnumAndCol_eq all_eq [OF refl] cong: if_cong)

lemma deliver_currentLineOnly_refresh:
  "deliver (activateCurrentLineOnlyMode NS []) (hst, DidRefresh e) st =
   onDidRefresh_currentLineOnly NS hst e st"
  by (simp add: deliver_def activateCurrentLineOnlyMode_def)

lemma deliver_currentLineOnly_cursor:
  "deliver (activateCurrentLineOnlyMode NS []) (hst, CursorMoved b cur) st =
   onCursorMoved NS hst b cur st"
  by (simp add: deliver_def activateCurrentLineOnlyMode_def)

lemma deliver_allLines_refresh:
  "deliver (activateAllLinesMode NS []) (hst, DidRefresh e) st = onDidRefresh_allLines NS e st"
  by (simp add: deliver_def activateAllLinesMode_def)

lemma deliver_allLines_cursor:
  "deliver (activateAllLinesMode NS []) (hst, CursorMoved b cur) st = st"
  by (simp add: deliver_def activateAllLinesMode_def)

lemma normalised_heap_fire:
  "normalised (heap (fire hst ev d st) a) = normalised (heap st a)"
proof (cases "(hst, ev, d, st)" rule: fire.cases)
  case (2 hst' b cur NS st')
  then show ?thesis
    by (cases cur) (simp add: onCursorMoved_eq normalised_idem)
qed (simp_all add: onDidRefresh_currentLineOnly_eq onDidRefresh_allLines_eq normalised_idem)

lemma normalised_heap_deliver:
  "normalised (heap (deliver subs hev st) a) = normalised (heap st a)"
  unfolding deliver_def
  by (induction subs arbitrary: st) (simp_all add: normalised_heap_fire)

lemma normalised_heap_run:
  "normalised (heap (run subs evs st) a) = normalised (heap st a)"
  unfolding run_def
  by (induction evs arbitrary: st) (simp_all add: normalised_heap_deliver)

lemma activate_True: "activate True NS subs = activateCurrentLineOnlyMode NS subs"
  by (simp add: activate_def)

lemma activate_False: "activate False NS subs = activateAllLinesMode NS subs"
  by (simp add: activate_def)

text \<open>The cleanup chunk, run by the editor.\<close>

lemma bufs_clear [simp]: "bufs (nvim_buf_clear_namespace b ns ls le nv) = bufs nv"
  by (simp add: nvim_buf_clear_namespace_def)

lemma fold_clear:
  "bufs (fold (\<lambda>b. nvim_buf_clear_namespace b NS 0 (- 1)) bs nv) = bufs nv \<and>
   extmarks (fold (\<lambda>b. nvim_buf_clear_namespace b NS 0 (- 1)) bs nv) b =
     (if b \<in> set bs then filter (\<lambda>m. \<not> (NS = - 1 \<or> mark_ns m = NS)) (extmarks nv b)
      else extmarks nv b)"
proof (induction bs arbitrary: nv)
  case Nil
  show ?case by simp
next
  case (Cons x xs)
  show ?case
    by (simp add: Cons.IH) (simp add: nvim_buf_clear_namespace_def)
qed

lemma exec_lua_clear:
  "b \<in> set (nvim_list_bufs (exec_lua (ForListBufs_ClearNamespace NS 0 (- 1)) nv)) \<Longrightarrow>
   filter (\<lambda>m. mark_ns m = NS) (extmarks (exec_lua (ForListBufs_ClearNamespace NS 0 (- 1)) nv) b) = []"
  by (simp add: exec_lua_def nvim_list_bufs_def fold_clear filter_empty_conv)

lemma requests_deactivate:
  "requests (deactivate (activate currentLineOnly NS []) st) =
   requests st @ [NvimLua (ForListBufs_ClearNamespace NS 0 (- 1))]"
  by (simp add: deactivate_def activate_def activateCurrentLineOnlyMode_def
        activateAllLinesMode_def)

text \<open>Unfolding sets for the evaluation of the examples.\<close>

lemmas example_defs =
  unused_var_def on_line4_def example_heap_def example_getDiagnostics_def example_host_def
  example_state_def example_refresh_def example_extmarks_def example_nvim_def

lemmas model_defs =
  activate_def activateCurrentLineOnlyMode_def activateAllLinesMode_def deliver_def run_def
  onDidRefresh_currentLineOnly_def onCursorMoved_def onDidRefresh_allLines_def
  populateLnumAndCol_def diagnosticIsOnLine_def normalised_def Let_def

section \<open>The line-intersection rule\<close>

text \<open>
  C1. For every diagnostic \<open>D\<close> with zero-based start line \<open>s\<close> and end line \<open>e\<close> and every
  one-based cursor line \<open>L\<close>, \<^verbatim>\<open>diagnosticIsOnLine\<close> returns true if and only if
  \<open>s \<le> L - 1 \<le> e\<close>. In particular a single-line diagnostic at zero-based line 4 is on
  cursor line 5, and neither on line 6 nor on line 4.
\<close>

theorem diagnosticIsOnLine_iff:
  "(diagnosticIsOnLine D L \<longleftrightarrow>
      line (start (range' D)) \<le> L - 1 \<and> L - 1 \<le> line (end' (range' D))) \<and>
   (line (start (range' D)) = 4 \<and> line (end' (range' D)) = 4 \<longrightarrow>
      diagnosticIsOnLine D 5 \<and> \<not> diagnosticIsOnLine D 6 \<and> \<not> diagnosticIsOnLine D 4)"
  by (simp add: diagnosticIsOnLine_def Let_def)

theorem diagnosticIsOnLine_iff_witness:
  "line (start (range' on_line4)) = 4 \<and> line (end' (range' on_line4)) = 4 \<and>
   diagnosticIsOnLine on_line4 5 \<and> \<not> diagnosticIsOnLine on_line4 6 \<and>
   \<not> diagnosticIsOnLine on_line4 4"
  using diagnosticIsOnLine_iff [of on_line4 5] by (simp add: on_line4_def)

section \<open>Normalisation\<close>

text \<open>
  C4. After \<^verbatim>\<open>populateLnumAndCol\<close>, the property \<^verbatim>\<open>lnum\<close> of the diagnostic equals the line of
  the start of its range and \<^verbatim>\<open>col\<close> equals the character of the start of its range; the
  range is the one the diagnostic had before.
\<close>

theorem populateLnumAndCol_fields:
  "(case populateLnumAndCol D h of (D', h') \<Rightarrow>
      lnum (h' D') = Some (line (start (range' (h' D')))) \<and>
      col (h' D') = Some (character (start (range' (h' D')))) \<and>
      range' (h' D') = range' (h D))"
  by (simp add: populateLnumAndCol_eq normalised_def)

text \<open>
  C5. Normalisation is idempotent: \<^verbatim>\<open>populateLnumAndCol\<close> applied to its own result (the
  returned reference, in the store it left) gives that result again.
\<close>

theorem populateLnumAndCol_idempotent:
  "(case populateLnumAndCol D h of (D', h') \<Rightarrow> populateLnumAndCol D' h') =
   populateLnumAndCol D h"
  by (simp add: populateLnumAndCol_eq normalised_idem)

text \<open>
  C9, as claimed: normalisation leaves the received diagnostic object unmodified. It does
  not: the object at reference 0 of the example store has no \<^verbatim>\<open>lnum\<close> before the call and has
  one after it.
\<close>

theorem populateLnumAndCol_mutates_counterexample:
  "snd (populateLnumAndCol 0 example_heap) 0 \<noteq> example_heap 0"
  by (simp add: populateLnumAndCol_def example_heap_def unused_var_def Let_def)

text \<open>
  C9, amended: \<^verbatim>\<open>populateLnumAndCol\<close> returns the reference it received and writes \<^verbatim>\<open>lnum\<close>
  and \<^verbatim>\<open>col\<close> on the received object itself. Every other property of that object (range,
  severity, message, source and whatever else it carries) is unchanged, and so is every
  other object of the store.
\<close>

theorem populateLnumAndCol_frame:
  "(case populateLnumAndCol D h of (D', h') \<Rightarrow>
      D' = D \<and>
      range' (h' D) = range' (h D) \<and>
      severity (h' D) = severity (h D) \<and>
      message (h' D) = message (h D) \<and>
      source (h' D) = source (h D) \<and>
      diagnostic.more (h' D) = diagnostic.more (h D) \<and>
      lnum (h' D) = Some (line (start (range' (h D)))) \<and>
      col (h' D) = Some (character (start (range' (h D)))) \<and>
      (\<forall>a. a \<noteq> D \<longrightarrow> h' a = h a))"
  by (simp add: populateLnumAndCol_eq normalised_def)

theorem populateLnumAndCol_frame_witness:
  "(1::nat) \<noteq> 0 \<and>
   fst (populateLnumAndCol 0 example_heap) = 0 \<and>
   snd (populateLnumAndCol 0 example_heap) 1 = example_heap 1 \<and>
   snd (populateLnumAndCol 0 example_heap) 0 = unused_var\<lparr>lnum := Some 2, col := Some 0\<rparr>"
proof -
  have neq: "(1::nat) \<noteq> 0" by simp
  obtain D' h' where r: "populateLnumAndCol 0 example_heap = (D', h')"
    by (cases "populateLnumAndCol 0 example_heap")
  from populateLnumAndCol_frame [of 0 example_heap] r
  have fr: "D' = 0" "range' (h' 0) = range' (example_heap 0)"
    "severity (h' 0) = severity (example_heap 0)"
    "message (h' 0) = message (example_heap 0)"
    "source (h' 0) = source (example_heap 0)"
    "diagnostic.more (h' 0) = diagnostic.more (example_heap 0)"
    "lnum (h' 0) = Some (line (start (range' (example_heap 0))))"
    "col (h' 0) = Some (character (start (range' (example_heap 0))))"
    "\<forall>a. a \<noteq> 0 \<longrightarrow> h' a = example_heap a"
    by simp_all
  from fr(9) neq have "h' 1 = example_heap 1" by blast
  moreover have "h' 0 = unused_var\<lparr>lnum := Some 2, col := Some 0\<rparr>"
    using fr(2-8) by (simp add: example_heap_def unused_var_def)
  ultimately show ?thesis using r fr(1) by simp
qed

section \<open>The handlers of the current-line-only mode\<close>

text \<open>
  C2. In the current-line-only mode, after any sequence of earlier events, a cursor-move
  event to line \<open>L\<close> sends exactly one render request. Its diagnostic sequence is obtained
  from the complete set the diagnostic manager returns at that moment: the groups of the
  sources are concatenated in order, every element is populated, and the elements on line
  \<open>L\<close> are kept. Earlier, filtered renders have no influence on it: the sequence is the one
  computed from the objects as they were before any event. The request is sent also when
  no diagnostic is on line \<open>L\<close>, with an empty sequence.
\<close>

theorem cursorMoved_refetches_full_set:
  "let subs = activate True NS [];
       st = run subs evs st0;
       st' = deliver subs (hst, CursorMoved b (L, c)) st;
       full = concat (map snd (getDiagnostics hst (fst (getBufferAndPosition hst))));
       onLine = filter (\<lambda>d. diagnosticIsOnLine d L) (map (\<lambda>a. normalised (heap st0 a)) full)
   in requests st' = requests st @
        [NvimCall ''luaeval''
           [JString render_show,
            JArray [JNumber NS, JNumber b, JArray (map JDiagnostic onLine),
                    JEmptyObject, JString ''coc'']]] \<and>
      (onLine = [] \<longrightarrow>
         requests st' = requests st @
           [NvimCall ''luaeval''
              [JString render_show,
               JArray [JNumber NS, JNumber b, JArray [], JEmptyObject, JString ''coc'']]])"
  by (simp add: Let_def activate_True deliver_currentLineOnly_cursor onCursorMoved_eq
        normalised_heap_run)

theorem cursorMoved_refetches_full_set_witness:
  "filter (\<lambda>d. diagnosticIsOnLine d 4)
     (map (\<lambda>a. normalised (example_heap a))
        (concat (map snd (example_getDiagnostics 1)))) = [] \<and>
   requests (deliver (activate True 7 []) (example_host, CursorMoved 1 (4, 0))
      (run (activate True 7 []) [(example_host, CursorMoved 1 (3, 0))] example_state)) =
   requests (run (activate True 7 []) [(example_host, CursorMoved 1 (3, 0))] example_state) @
     [NvimCall ''luaeval''
        [JString render_show,
         JArray [JNumber 7, JNumber 1, JArray [], JEmptyObject, JString ''coc'']]]"
proof -
  have empty: "filter (\<lambda>d. diagnosticIsOnLine d 4)
     (map (\<lambda>a. normalised (heap example_state a))
        (concat (map snd (getDiagnostics example_host (fst (getBufferAndPosition example_host)))))) = []"
    by (simp add: example_defs diagnosticIsOnLine_def normalised_def)
  from cursorMoved_refetches_full_set
    [where NS = 7 and evs = "[(example_host, CursorMoved 1 (3, 0))]" and ?st0.0 = example_state
       and hst = example_host and b = 1 and L = 4 and c = 0]
  have "filter (\<lambda>d. diagnosticIsOnLine d 4)
     (map (\<lambda>a. normalised (heap example_state a))
        (concat (map snd (getDiagnostics example_host (fst (getBufferAndPosition example_host)))))) = []
     \<longrightarrow> requests (deliver (activate True 7 []) (example_host, CursorMoved 1 (4, 0))
      (run (activate True 7 []) [(example_host, CursorMoved 1 (3, 0))] example_state)) =
   requests (run (activate True 7 []) [(example_host, CursorMoved 1 (3, 0))] example_state) @
     [NvimCall ''luaeval''
        [JString render_show,
         JArray [JNumber 7, JNumber 1, JArray [], JEmptyObject, JString ''coc'']]]"
    unfolding Let_def by (rule conjunct2)
  with empty show ?thesis
    by (simp add: example_host_def example_state_def)
qed

text \<open>
  The cursor visits line 3, then line 5, then line 3 again: each time the render request
  carries the one diagnostic of that line.
\<close>

lemma cursor_moves_3_5_3:
  "map (\<lambda>r. case r of NvimCall f [e, JArray [ns, b, ds, opts, tag]] \<Rightarrow> ds | _ \<Rightarrow> JUndefined)
     (requests (run (activate True 7 [])
        [(example_host, CursorMoved 1 (3, 0)),
         (example_host, CursorMoved 1 (5, 0)),
         (example_host, CursorMoved 1 (3, 0))] example_state)) =
   [JArray [JDiagnostic (unused_var\<lparr>lnum := Some 2, col := Some 0\<rparr>)],
    JArray [JDiagnostic (on_line4\<lparr>lnum := Some 4, col := Some 7\<rparr>)],
    JArray [JDiagnostic (unused_var\<lparr>lnum := Some 2, col := Some 0\<rparr>)]]"
  by (simp add: model_defs example_defs)

text \<open>
  C8. In the current-line-only mode, a diagnostic-refresh event sends exactly one render
  request, for the buffer of the event, and keeps the diagnostics that are on the cursor
  line of the focused window. Which buffer is the focused one plays no role: the handler
  gives the same result whatever the active-buffer lookup would answer.
\<close>

theorem refresh_filters_by_window_cursor:
  "let st' = deliver (activate True NS []) (hst, DidRefresh e) st;
       onLine = filter (\<lambda>d. diagnosticIsOnLine d (fst (window_cursor hst)))
                  (map (\<lambda>a. normalised (heap st a)) (diagnostics e))
   in requests st' = requests st @
        [NvimCall ''luaeval''
           [JString render_show,
            JArray [JNumber NS, JNumber (bufnr e), JArray (map JDiagnostic onLine),
                    JEmptyObject, JString ''coc'']]] \<and>
      deliver (activate True NS []) (hst\<lparr>getBufferAndPosition := focused\<rparr>, DidRefresh e) st = st'"
  by (simp add: Let_def activate_True deliver_currentLineOnly_refresh
        onDidRefresh_currentLineOnly_eq)

theorem refresh_filters_by_window_cursor_witness:
  "bufnr example_refresh \<noteq> fst (getBufferAndPosition example_host) \<and>
   requests (deliver (activate True 7 []) (example_host, DidRefresh example_refresh) example_state) =
     [NvimCall ''luaeval''
        [JString render_show,
         JArray [JNumber 7, JNumber 2,
                 JArray [JDiagnostic (unused_var\<lparr>lnum := Some 2, col := Some 0\<rparr>)],
                 JEmptyObject, JString ''coc'']]]"
  using refresh_filters_by_window_cursor
    [where NS = 7 and hst = example_host and e = example_refresh and st = example_state]
  by (simp add: Let_def example_defs normalised_def diagnosticIsOnLine_def)

text \<open>
  C10. The cursor-move handler flattens, populates and filters the set the diagnostic
  manager holds for the buffer its active-buffer lookup returns, and the render request
  targets the buffer number of the event. When the two differ, what the manager holds for
  the buffer of the event has no influence on what the handler does.
\<close>

theorem cursorMoved_renders_active_buffer_set:
  "requests (onCursorMoved NS hst b (L, c) st) = requests st @
     [NvimCall ''luaeval''
        [JString render_show,
         JArray [JNumber NS, JNumber b,
                 JArray (map JDiagnostic
                   (filter (\<lambda>d. diagnosticIsOnLine d L)
                      (map (\<lambda>a. normalised (heap st a))
                         (concat (map snd
                            (getDiagnostics hst (fst (getBufferAndPosition hst)))))))),
                 JEmptyObject, JString ''coc'']]] \<and>
   (fst (getBufferAndPosition hst) \<noteq> b \<longrightarrow>
      onCursorMoved NS (hst\<lparr>getDiagnostics := (getDiagnostics hst)(b := other)\<rparr>) b (L, c) st =
      onCursorMoved NS hst b (L, c) st)"
  by (simp add: onCursorMoved_eq)

theorem cursorMoved_renders_active_buffer_set_witness:
  "fst (getBufferAndPosition example_host) \<noteq> 2 \<and>
   requests (onCursorMoved 7 example_host 2 (3, 0) example_state) =
     [NvimCall ''luaeval''
        [JString render_show,
         JArray [JNumber 7, JNumber 2,
                 JArray [JDiagnostic (unused_var\<lparr>lnum := Some 2, col := Some 0\<rparr>)],
                 JEmptyObject, JString ''coc'']]] \<and>
   onCursorMoved 7 (example_host\<lparr>getDiagnostics := (getDiagnostics example_host)(2 := [(''eslint'', [1])])\<rparr>)
      2 (3, 0) example_state =
   onCursorMoved 7 example_host 2 (3, 0) example_state"
proof -
  have neq: "fst (getBufferAndPosition example_host) \<noteq> 2"
    by (simp add: example_host_def)
  note inst = cursorMoved_renders_active_buffer_set
    [where NS = 7 and hst = example_host and b = 2 and L = 3 and c = 0 and st = example_state
       and other = "[(''eslint'', [1])]"]
  from inst neq have indep:
    "onCursorMoved 7 (example_host\<lparr>getDiagnostics := (getDiagnostics example_host)(2 := [(''eslint'', [1])])\<rparr>)
      2 (3, 0) example_state = onCursorMoved 7 example_host 2 (3, 0) example_state"
    by blast
  from inst have "requests (onCursorMoved 7 example_host 2 (3, 0) example_state) =
     [NvimCall ''luaeval''
        [JString render_show,
         JArray [JNumber 7, JNumber 2,
                 JArray [JDiagnostic (unused_var\<lparr>lnum := Some 2, col := Some 0\<rparr>)],
                 JEmptyObject, JString ''coc'']]]"
    by (simp add: example_defs diagnosticIsOnLine_def normalised_def)
  with neq indep show ?thesis by blast
qed

section \<open>The handler of the all-lines mode\<close>

text \<open>
  C3. In the all-lines mode, a diagnostic-refresh event for buffer \<open>B\<close> with the sequence \<open>S\<close>
  sends exactly one render request, for \<open>B\<close>; its diagnostic sequence holds every element of
  \<open>S\<close>, populated, in the same order and number.
\<close>

theorem allLines_refresh_renders_all:
  "let st' = deliver (activate False NS []) (hst, DidRefresh e) st;
       all = map (\<lambda>a. normalised (heap st a)) (diagnostics e)
   in requests st' = requests st @
        [NvimCall ''luaeval''
           [JString render_show,
            JArray [JNumber NS, JNumber (bufnr e), JArray (map JDiagnostic all),
                    JEmptyObject, JString ''coc'']]] \<and>
      length all = length (diagnostics e) \<and>
      list_all (\<lambda>d. lnum d = Some (line (start (range' d))) \<and>
                     col d = Some (character (start (range' d)))) all"
  by (simp add: Let_def activate_False deliver_allLines_refresh onDidRefresh_allLines_eq
        list_all_iff normalised_def)

theorem allLines_refresh_renders_all_witness:
  "requests (deliver (activate False 7 []) (example_host, DidRefresh example_refresh) example_state) =
     [NvimCall ''luaeval''
        [JString render_show,
         JArray [JNumber 7, JNumber 2,
                 JArray [JDiagnostic (unused_var\<lparr>lnum := Some 2, col := Some 0\<rparr>),
                         JDiagnostic (on_line4\<lparr>lnum := Some 4, col := Some 7\<rparr>)],
                 JEmptyObject, JString ''coc'']]]"
  using allLines_refresh_renders_all
    [where NS = 7 and hst = example_host and e = example_refresh and st = example_state]
  by (simp add: Let_def example_defs normalised_def)

section \<open>The render request\<close>

text \<open>
  C6. In both modes and from every handler, the request an event sends is a call of
  \<^verbatim>\<open>luaeval\<close> on the one render expression with the array of the namespace number, the
  buffer number, the diagnostic sequence, an empty object and the string \<^verbatim>\<open>coc\<close>, in this
  order; a cursor-move event in the all-lines mode sends nothing. The expression hands
  the five elements of the array to the renderer in the same order.
\<close>

theorem render_invocation_argument_order:
  "(\<exists>ds. requests (deliver (activate True NS []) (hst, DidRefresh e) st) = requests st @
      [NvimCall ''luaeval''
         [JString render_show,
          JArray [JNumber NS, JNumber (bufnr e), JArray (map JDiagnostic ds),
                  JEmptyObject, JString ''coc'']]]) \<and>
   (\<exists>ds. requests (deliver (activate True NS []) (hst, CursorMoved b cur) st) = requests st @
      [NvimCall ''luaeval''
         [JString render_show,
          JArray [JNumber NS, JNumber b, JArray (map JDiagnostic ds),
                  JEmptyObject, JString ''coc'']]]) \<and>
   (\<exists>ds. requests (deliver (activate False NS []) (hst, DidRefresh e) st) = requests st @
      [NvimCall ''luaeval''
         [JString render_show,
          JArray [JNumber NS, JNumber (bufnr e), JArray (map JDiagnostic ds),
                  JEmptyObject, JString ''coc'']]]) \<and>
   requests (deliver (activate False NS []) (hst, CursorMoved b cur) st) = requests st \<and>
   exec_request render (NvimCall ''luaeval'' [JString render_show, JArray [a1, a2, a3, a4, a5]]) nv =
     render a1 a2 a3 a4 a5 nv"
proof -
  obtain L c where cur: "cur = (L, c)" by (cases cur)
  show ?thesis
    by (simp add: cur activate_True activate_False deliver_currentLineOnly_refresh
        deliver_currentLineOnly_cursor deliver_allLines_refresh deliver_allLines_cursor
        onDidRefresh_currentLineOnly_eq onCursorMoved_eq onDidRefresh_allLines_eq lua_index_def
        del: map_map) blast
qed

section \<open>Deactivation\<close>

text \<open>
  C7. In either mode, after any sequence of events, disposing of the subscriptions sends
  the cleanup chunk last; once the editor has run all the requests, whatever the renderer
  drew, no buffer of the editor holds an annotation of the namespace of the adapter.
\<close>

theorem deactivation_clears_namespace:
  "let subs = activate currentLineOnly NS [];
       st' = deactivate subs (run subs evs st);
       nv' = exec_requests render (requests st') nv
   in \<forall>b \<in> set (nvim_list_bufs nv'). filter (\<lambda>m. mark_ns m = NS) (extmarks nv' b) = []"
  by (simp add: Let_def requests_deactivate exec_requests_def exec_lua_clear)

theorem deactivation_clears_namespace_witness:
  "1 \<in> set (nvim_list_bufs (exec_requests example_render
       (requests (deactivate (activate True 7 [])
          (run (activate True 7 [])
             [(example_host, DidRefresh example_refresh), (example_host, CursorMoved 1 (3, 0))]
             example_state)))
       example_nvim)) \<and>
   filter (\<lambda>m. mark_ns m = 7) (extmarks (exec_requests example_render
       (requests (deactivate (activate True 7 [])
          (run (activate True 7 [])
             [(example_host, DidRefresh example_refresh), (example_host, CursorMoved 1 (3, 0))]
             example_state)))
       example_nvim) 1) = [] \<and>
   filter (\<lambda>m. mark_ns m = 7) (extmarks (exec_requests example_render
       (requests (run (activate True 7 [])
             [(example_host, DidRefresh example_refresh), (example_host, CursorMoved 1 (3, 0))]
             example_state))
       example_nvim) 1) =
     [\<lparr>mark_ns = 7, mark_line = 0\<rparr>, \<lparr>mark_ns = 7, mark_line = 3\<rparr>]"
proof -
  have mem: "1 \<in> set (nvim_list_bufs (exec_requests example_render
       (requests (deactivate (activate True 7 [])
          (run (activate True 7 [])
             [(example_host, DidRefresh example_refresh), (example_host, CursorMoved 1 (3, 0))]
             example_state)))
       example_nvim))"
    by (simp add: model_defs example_defs deactivate_def exec_requests_def exec_lua_def
          nvim_list_bufs_def lua_index_def)
  have before: "filter (\<lambda>m. mark_ns m = 7) (extmarks (exec_requests example_render
       (requests (run (activate True 7 [])
             [(example_host, DidRefresh example_refresh), (example_host, CursorMoved 1 (3, 0))]
             example_state))
       example_nvim) 1) =
     [\<lparr>mark_ns = 7, mark_line = 0\<rparr>, \<lparr>mark_ns = 7, mark_line = 3\<rparr>]"
    by (simp add: model_defs example_defs exec_requests_def lua_index_def)
  from deactivation_clears_namespace
    [where currentLineOnly = True and NS = 7 and st = example_state and nv = example_nvim
       and render = example_render
       and evs = "[(example_host, DidRefresh example_refresh), (example_host, CursorMoved 1 (3, 0))]",
     unfolded Let_def, THEN bspec, OF mem] mem before
  show ?thesis by blast
qed

end
